theory Spec2Isabelle
  imports Main "HOL-Library.AList"
begin

section \<open>JavaScript values\<close>

text \<open>
  The values the program reads out of JSON payloads and hands to its callback. Numbers
  are integers here: no claim depends on a fractional number, and the only test the
  program applies to a number is truthiness.
\<close>

datatype jsval =
    JUndefined
  | JNull
  | JBool bool
  | JNum int
  | JStr string
  | JObj "(string \<times> jsval) list"

text \<open>JavaScript truthiness, as used by \<open>if (x)\<close>, \<open>!x\<close> and \<open>x?.f\<close>.\<close>

fun truthy :: "jsval \<Rightarrow> bool" where
  "truthy JUndefined = False"
| "truthy JNull = False"
| "truthy (JBool b) = b"
| "truthy (JNum n) = (n \<noteq> 0)"
| "truthy (JStr s) = (s \<noteq> [])"
| "truthy (JObj fs) = True"

datatype error =
    NetworkError
  | HttpFailure nat
  | JsonError
  | TypeError
  | ImageNotFound
  | UpstreamError

text \<open>
  Property read \<open>v.k\<close>: a TypeError on \<open>undefined\<close> and \<open>null\<close>, the stored value
  on an object that has the key, \<open>undefined\<close> otherwise.
\<close>

fun get_prop :: "jsval \<Rightarrow> string \<Rightarrow> error + jsval" where
  "get_prop JUndefined k = Inl TypeError"
| "get_prop JNull k = Inl TypeError"
| "get_prop (JObj fs) k = (case map_of fs k of Some v \<Rightarrow> Inr v | None \<Rightarrow> Inr JUndefined)"
| "get_prop v k = Inr JUndefined"

text \<open>Optional chaining \<open>v?.k\<close>: \<open>undefined\<close> on \<open>undefined\<close> and \<open>null\<close>.\<close>

fun opt_chain :: "jsval \<Rightarrow> string \<Rightarrow> jsval" where
  "opt_chain v k = (case get_prop v k of Inl e \<Rightarrow> JUndefined | Inr x \<Rightarrow> x)"

section \<open>The status poller (\<open>useStatusPolling\<close>)\<close>

text \<open>
  \<open>NodeJS.Timeout\<close>, the declared type of the interval table's values: an object, hence
  always truthy in the test of \<open>stopPolling\<close>.
\<close>

datatype timeout = Timeout nat

fun handle_no :: "timeout \<Rightarrow> nat" where
  "handle_no (Timeout n) = n"

text \<open>The object handed to \<open>onStatusUpdate\<close>.\<close>

record uploaded_image =
  fileName :: string
  status :: jsval
  instanceId :: string
  aiTags :: jsval
  aiAltText :: jsval

text \<open>
  What one \<open>fetch(url)\<close> of the poller gives: the promise rejects (transport error), or
  a response with its HTTP status and the outcome of \<open>response.json()\<close>
  (\<open>None\<close>: the body does not parse and \<open>json()\<close> rejects).
\<close>

datatype fetch_result = Rejected | Response nat "jsval option"

text \<open>\<open>response.ok\<close>: the status is in the range 200 to 299.\<close>

definition ok :: "nat \<Rightarrow> bool" where
  "ok code = (200 \<le> code \<and> code \<le> 299)"

text \<open>
  The surroundings of one tick: the constant \<open>API_BASE_URL\<close> (imported from a module
  that is not among the sources, so a parameter) and the answer of the network to each URL.
\<close>

record poll_env =
  api_base_url :: string
  http :: "string \<Rightarrow> fetch_result"

text \<open>
  The state of the hook and of the timer runtime around it:
  \<^item> \<open>pollingIntervals\<close> is \<open>pollingIntervals.current\<close>, an object used as a table from
    identifier to timer handle, kept as an association list in insertion order;
  \<^item> \<open>timers\<close> are the intervals the runtime has scheduled and not cleared, each with the
    arguments its closure passes to \<open>pollStatus\<close>;
  \<^item> \<open>next_handle\<close> numbers the handles \<open>setInterval\<close> gives out;
  \<^item> \<open>updates\<close> are the calls of \<open>onStatusUpdate\<close>, oldest first;
  \<^item> \<open>fetched\<close> are the URLs requested, oldest first.
\<close>

record poller =
  pollingIntervals :: "(string \<times> timeout) list"
  timers :: "(timeout \<times> string \<times> string) list"
  next_handle :: nat
  updates :: "uploaded_image list"
  fetched :: "string list"

definition initial_poller :: poller where
  "initial_poller =
     \<lparr>pollingIntervals = [], timers = [], next_handle = 0, updates = [], fetched = []\<rparr>"

definition clearInterval :: "timeout \<Rightarrow> poller \<Rightarrow> poller" where
  "clearInterval t st = st\<lparr>timers := filter (\<lambda>(h, i, f). h \<noteq> t) (timers st)\<rparr>"

definition setInterval :: "string \<Rightarrow> string \<Rightarrow> poller \<Rightarrow> timeout \<times> poller" where
  "setInterval i f st =
     (let t = Timeout (next_handle st)
      in (t, st\<lparr>timers := timers st @ [(t, i, f)], next_handle := Suc (next_handle st)\<rparr>))"

definition onStatusUpdate :: "uploaded_image \<Rightarrow> poller \<Rightarrow> poller" where
  "onStatusUpdate img st = st\<lparr>updates := updates st @ [img]\<rparr>"

definition stopPolling :: "string \<Rightarrow> poller \<Rightarrow> poller" where
  "stopPolling i st =
     (case map_of (pollingIntervals st) i of
        Some t \<Rightarrow>
          (let st1 = clearInterval t st
           in st1\<lparr>pollingIntervals := AList.delete i (pollingIntervals st1)\<rparr>)
      | None \<Rightarrow> st)"

definition handleError :: "string \<Rightarrow> string \<Rightarrow> poller \<Rightarrow> poller" where
  "handleError i f st =
     stopPolling i
       (onStatusUpdate
          \<lparr>fileName = f, status = JStr ''error'', instanceId = i,
           aiTags = JUndefined, aiAltText = JUndefined\<rparr> st)"

definition startPolling :: "string \<Rightarrow> string \<Rightarrow> poller \<Rightarrow> poller" where
  "startPolling i f st =
     (let st1 = stopPolling i st;
          (t, st2) = setInterval i f st1
      in st2\<lparr>pollingIntervals := AList.update i t (pollingIntervals st2)\<rparr>)"

text \<open>
  \<open>await fetch(url)\<close>, the \<open>ok\<close> test with its \<open>throw\<close>, and \<open>await response.json()\<close>:
  the three places where the \<open>try\<close> block of a query can leave for its \<open>catch\<close>.
  \<open>query\<close> is what comes back, \<open>fetch_json\<close> also logs the request, whatever comes back.
\<close>

definition query :: "poll_env \<Rightarrow> string \<Rightarrow> error + jsval" where
  "query env url =
     (case http env url of
        Rejected \<Rightarrow> Inl NetworkError
      | Response code body \<Rightarrow>
          if \<not> ok code then Inl (HttpFailure code)
          else (case body of None \<Rightarrow> Inl JsonError | Some v \<Rightarrow> Inr v))"

definition fetch_json :: "poll_env \<Rightarrow> string \<Rightarrow> poller \<Rightarrow> (error + jsval) \<times> poller" where
  "fetch_json env url st = (query env url, st\<lparr>fetched := fetched st @ [url]\<rparr>)"

definition status_url :: "poll_env \<Rightarrow> string \<Rightarrow> string" where
  "status_url env i = api_base_url env @ ''/?instanceId='' @ i"

definition alttext_url :: "poll_env \<Rightarrow> string \<Rightarrow> string" where
  "alttext_url env i = api_base_url env @ ''/alttext?instanceId='' @ i"

definition tags_url :: "poll_env \<Rightarrow> string \<Rightarrow> string" where
  "tags_url env i = api_base_url env @ ''/tags?instanceId='' @ i"

definition fetchWorkflowRes :: "poll_env \<Rightarrow> string \<Rightarrow> string \<Rightarrow> poller \<Rightarrow> poller" where
  "fetchWorkflowRes env i f st =
     (case fetch_json env (alttext_url env i) st of
        (Inl e, st1) \<Rightarrow> handleError i f st1
      | (Inr altTextData, st1) \<Rightarrow>
          (case fetch_json env (tags_url env i) st1 of
             (Inl e, st2) \<Rightarrow> handleError i f st2
           | (Inr tagsData, st2) \<Rightarrow>
               (case get_prop tagsData ''tags'' of
                  Inl e \<Rightarrow> handleError i f st2
                | Inr tags \<Rightarrow>
                    (case get_prop altTextData ''altText'' of
                       Inl e \<Rightarrow> handleError i f st2
                     | Inr altText \<Rightarrow>
                         stopPolling i
                           (onStatusUpdate
                              \<lparr>fileName = f, status = JStr ''complete'', instanceId = i,
                               aiTags = tags, aiAltText = altText\<rparr> st2)))))"

definition pollStatus :: "poll_env \<Rightarrow> string \<Rightarrow> string \<Rightarrow> poller \<Rightarrow> poller" where
  "pollStatus env i f st =
     (case fetch_json env (status_url env i) st of
        (Inl e, st1) \<Rightarrow> handleError i f st1
      | (Inr data, st1) \<Rightarrow>
          (case get_prop data ''status'' of
             Inl e \<Rightarrow> handleError i f st1
           | Inr s \<Rightarrow>
               (let st2 = onStatusUpdate
                            \<lparr>fileName = f, status = s, instanceId = i,
                             aiTags = JUndefined, aiAltText = JUndefined\<rparr> st1
                in if s = JStr ''complete''
                   then stopPolling i (fetchWorkflowRes env i f st2)
                   else (case get_prop data ''error'' of
                           Inl e \<Rightarrow> handleError i f st2
                         | Inr err \<Rightarrow> if truthy err then handleError i f st2 else st2))))"

text \<open>
  The cleanup returned by the hook's \<open>useEffect\<close>: every value of the table is cleared;
  the table itself is left as it is.
\<close>

definition cleanup :: "poller \<Rightarrow> poller" where
  "cleanup st = fold clearInterval (map snd (pollingIntervals st)) st"

text \<open>The intervals scheduled for an identifier.\<close>

definition active_for :: "string \<Rightarrow> poller \<Rightarrow> (timeout \<times> string \<times> string) list" where
  "active_for i st = filter (\<lambda>(h, j, f). j = i) (timers st)"

text \<open>
  The timer runtime: when the interval with handle \<open>h\<close> is due and still scheduled, its
  closure runs \<open>pollStatus(instanceId, fileName)\<close>; a cleared handle never fires. A tick
  is taken as one step: the table is read and written only by the synchronous
  \<open>stopPolling\<close> and \<open>startPolling\<close>, so interleaved ticks see it consistent.
\<close>

definition fire :: "poll_env \<times> timeout \<Rightarrow> poller \<Rightarrow> poller" where
  "fire eh st =
     (case map_of (timers st) (snd eh) of
        Some (i, f) \<Rightarrow> pollStatus (fst eh) i f st
      | None \<Rightarrow> st)"

text \<open>
  What holds of every state the hook reaches from \<open>initial_poller\<close>: handles are
  given out once, so no two scheduled intervals and no two table entries share one;
  every scheduled interval is the one the table records for its identifier; and the
  table holds no handle that \<open>setInterval\<close> has yet to give out.
\<close>

definition poller_inv :: "poller \<Rightarrow> bool" where
  "poller_inv st =
     (distinct (map fst (timers st)) \<and>
      distinct (map snd (pollingIntervals st)) \<and>
      (\<forall>(h, i, f) \<in> set (timers st). map_of (pollingIntervals st) i = Some h) \<and>
      (\<forall>(i, h) \<in> set (pollingIntervals st). handle_no h < next_handle st))"

section \<open>The HTTP boundary (\<open>fetch\<close> of the worker)\<close>

text \<open>The constants of \<open>config.ts\<close>.\<close>

definition ROUTES_TAGS :: string where "ROUTES_TAGS = ''/tags''"
definition ROUTES_TAG_APPROVAL :: string where "ROUTES_TAG_APPROVAL = ''/approval-for-ai-tagging''"
definition ROUTES_ALTTEXT :: string where "ROUTES_ALTTEXT = ''/alttext''"
definition ROUTES_ALTTEXT_APPROVAL :: string where
  "ROUTES_ALTTEXT_APPROVAL = ''/approval-for-ai-alttext''"

definition HTTP_STATUS_OK :: nat where "HTTP_STATUS_OK = 200"
definition HTTP_STATUS_BAD_REQUEST :: nat where "HTTP_STATUS_BAD_REQUEST = 400"
definition HTTP_STATUS_NOT_FOUND :: nat where "HTTP_STATUS_NOT_FOUND = 404"
definition HTTP_STATUS_METHOD_NOT_ALLOWED :: nat where "HTTP_STATUS_METHOD_NOT_ALLOWED = 405"
definition HTTP_STATUS_INTERNAL_SERVER_ERROR :: nat where
  "HTTP_STATUS_INTERNAL_SERVER_ERROR = 500"

record ai_config =
  MODEL :: string
  PROMPT :: string
  MAX_TOKENS :: nat

definition AI_TAGS_CONFIG :: ai_config where
  "AI_TAGS_CONFIG =
     \<lparr>MODEL = ''@cf/llava-hf/llava-1.5-7b-hf'',
      PROMPT = ''Give me 5 different single word description tags for the image. Return them as a comma separated list with only the tags, no other text.'',
      MAX_TOKENS = 512\<rparr>"

definition AI_ALT_TEXT_CONFIG :: ai_config where
  "AI_ALT_TEXT_CONFIG =
     \<lparr>MODEL = ''@cf/llava-hf/llava-1.5-7b-hf'',
      PROMPT = ''Give me an alt text description for this image, return this as a single setence with only the alt text description, no other text'',
      MAX_TOKENS = 512\<rparr>"

text \<open>
  What the handler reads of a request: the method, the path of the URL,
  \<open>url.searchParams.get('instanceId')\<close> (\<open>None\<close> for \<open>null\<close>), the \<open>content-type\<close>
  header, the outcome of \<open>req.json()\<close> (\<open>None\<close>: it rejects) and the outcome of
  \<open>req.formData()\<close> followed by \<open>get('image')\<close> (\<open>None\<close>: \<open>formData()\<close> rejects).
\<close>

datatype form_value = FormNull | FormString string | FormFile string

record request =
  http_method :: string
  pathname :: string
  search_instanceId :: "string option"
  content_type :: "string option"
  json_body :: "jsval option"
  form_image :: "form_value option"

text \<open>
  The bindings the handler calls, each as the answer it gives (\<open>None\<close> or \<open>False\<close>: the
  call rejects): the two lookups of \<open>DatabaseService\<close>, \<open>MY_WORKFLOW.get\<close> and
  \<open>create\<close>, \<open>instance.sendEvent\<close> and \<open>instance.status\<close>, \<open>nanoid\<close> and the bucket's
  \<open>put\<close>.
\<close>

record worker_env =
  getImageTags :: "string \<Rightarrow> jsval option"
  getImageAltText :: "string \<Rightarrow> jsval option"
  workflow_get :: "jsval \<Rightarrow> bool"
  sendEvent :: "jsval \<Rightarrow> string \<Rightarrow> bool \<Rightarrow> bool"
  instance_status :: "jsval \<Rightarrow> jsval option"
  nanoid :: string
  bucket_put :: "string \<Rightarrow> string \<Rightarrow> bool"
  workflow_create :: "string \<Rightarrow> string option"

text \<open>The calls the handler makes on its bindings, in the order it makes them.\<close>

datatype effect =
    DbGetImageTags string
  | DbGetImageAltText string
  | WorkflowGet jsval
  | SendEvent jsval string bool
  | InstanceStatus jsval
  | NanoId
  | BucketPut string string
  | WorkflowCreate string

text \<open>The call of \<open>ResponseHandler\<close> that builds the response, with its argument.\<close>

datatype response =
    CorsPreflight
  | Success jsval
  | BadRequest string
  | NotFound
  | MethodNotAllowed
  | ServerError string

text \<open>Modelled from the spec: \<open>ResponseHandler\<close> (\<open>./utils/response\<close>) is not among the
  sources. "Error responses use HTTP status codes 400 (missing/invalid params), 404
  (unrecognized path), 405 (wrong method for path), 500 (internal failure)"; the
  numbers are those of \<open>HTTP_STATUS\<close> in \<open>config.ts\<close>. The preflight response is only
  said to be "200-class", so it gets no number here.
\<close>

fun status_code :: "response \<Rightarrow> nat option" where
  "status_code CorsPreflight = None"
| "status_code (Success v) = Some HTTP_STATUS_OK"
| "status_code (BadRequest m) = Some HTTP_STATUS_BAD_REQUEST"
| "status_code NotFound = Some HTTP_STATUS_NOT_FOUND"
| "status_code MethodNotAllowed = Some HTTP_STATUS_METHOD_NOT_ALLOWED"
| "status_code (ServerError m) = Some HTTP_STATUS_INTERNAL_SERVER_ERROR"

text \<open>\<open>s.startsWith(p)\<close> and \<open>s.includes(p)\<close>.\<close>

fun str_startsWith :: "string \<Rightarrow> string \<Rightarrow> bool" where
  "str_startsWith s [] = True"
| "str_startsWith [] (c # p) = False"
| "str_startsWith (x # s) (c # p) = (x = c \<and> str_startsWith s p)"

fun str_includes :: "string \<Rightarrow> string \<Rightarrow> bool" where
  "str_includes [] p = (p = [])"
| "str_includes (x # s) p = (str_startsWith (x # s) p \<or> str_includes s p)"

text \<open>\<open>typeof v === 'boolean'\<close>.\<close>

fun is_boolean :: "jsval \<Rightarrow> bool" where
  "is_boolean (JBool b) = True"
| "is_boolean v = False"

fun the_boolean :: "jsval \<Rightarrow> bool" where
  "the_boolean (JBool b) = b"
| "the_boolean v = False"

text \<open>
  Each \<open>if (...) { ... }\<close> block of the handler is a function that gives \<open>None\<close> when its
  condition is false (control falls through to the next block) and otherwise the
  response it returns with the calls it made; every path inside a block ends in a
  \<open>return\<close>, the \<open>catch\<close> included.
\<close>

definition tags_route :: "worker_env \<Rightarrow> request \<Rightarrow> (response \<times> effect list) option" where
  "tags_route env req =
     (if pathname req = ROUTES_TAGS
      then Some
        (case search_instanceId req of
           None \<Rightarrow> (BadRequest ''Missing instanceId parameter'', [])
         | Some i \<Rightarrow>
             if i = [] then (BadRequest ''Missing instanceId parameter'', [])
             else (case getImageTags env i of
                     Some tags \<Rightarrow>
                       (Success (JObj [(''instanceId'', JStr i), (''tags'', tags)]),
                        [DbGetImageTags i])
                   | None \<Rightarrow> (ServerError ''Error fetching tags'', [DbGetImageTags i])))
      else None)"

definition approval_body ::
  "worker_env \<Rightarrow> string \<Rightarrow> request \<Rightarrow> response \<times> effect list" where
  "approval_body env event_type req =
     (case json_body req of
        None \<Rightarrow> (ServerError ''Error processing approval'', [])
      | Some body \<Rightarrow>
          (case get_prop body ''instanceId'' of
             Inl e \<Rightarrow> (ServerError ''Error processing approval'', [])
           | Inr i \<Rightarrow>
               (case get_prop body ''approved'' of
                  Inl e \<Rightarrow> (ServerError ''Error processing approval'', [])
                | Inr approved \<Rightarrow>
                    if \<not> truthy i \<or> \<not> is_boolean approved
                    then (BadRequest ''Missing or invalid parameters'', [])
                    else if \<not> workflow_get env i
                    then (ServerError ''Error processing approval'', [WorkflowGet i])
                    else if \<not> sendEvent env i event_type (the_boolean approved)
                    then (ServerError ''Error processing approval'',
                          [WorkflowGet i, SendEvent i event_type (the_boolean approved)])
                    else (Success (JObj [(''success'', JBool True)]),
                          [WorkflowGet i, SendEvent i event_type (the_boolean approved)]))))"

definition tag_approval_route ::
  "worker_env \<Rightarrow> request \<Rightarrow> (response \<times> effect list) option" where
  "tag_approval_route env req =
     (if pathname req = ROUTES_TAG_APPROVAL
      then Some
        (if http_method req \<noteq> ''POST'' then (MethodNotAllowed, [])
         else approval_body env ''approval-for-ai-tagging'' req)
      else None)"

definition create_route :: "worker_env \<Rightarrow> request \<Rightarrow> (response \<times> effect list) option" where
  "create_route env req =
     (if http_method req = ''POST'' \<and> pathname req = ''/''
      then Some
        (case content_type req of
           None \<Rightarrow> (BadRequest ''Invalid content type. Expected multipart/form-data'', [])
         | Some ct \<Rightarrow>
             if ct = [] \<or> \<not> str_includes ct ''multipart/form-data''
             then (BadRequest ''Invalid content type. Expected multipart/form-data'', [])
             else (case form_image req of
                     None \<Rightarrow> (ServerError ''Error processing image upload'', [])
                   | Some FormNull \<Rightarrow> (BadRequest ''Missing or invalid image file'', [])
                   | Some (FormString s) \<Rightarrow> (BadRequest ''Missing or invalid image file'', [])
                   | Some (FormFile img) \<Rightarrow>
                       (let imageKey = nanoid env
                        in if \<not> bucket_put env imageKey img
                           then (ServerError ''Error processing image upload'',
                                 [NanoId, BucketPut imageKey img])
                           else (case workflow_create env imageKey of
                                   None \<Rightarrow>
                                     (ServerError ''Error processing image upload'',
                                      [NanoId, BucketPut imageKey img, WorkflowCreate imageKey])
                                 | Some inst \<Rightarrow>
                                     (case instance_status env (JStr inst) of
                                        None \<Rightarrow>
                                          (ServerError ''Error processing image upload'',
                                           [NanoId, BucketPut imageKey img,
                                            WorkflowCreate imageKey, InstanceStatus (JStr inst)])
                                      | Some details \<Rightarrow>
                                          (Success
                                             (JObj [(''id'', JStr inst), (''details'', details),
                                                    (''success'', JBool True),
                                                    (''message'',
                                                     JStr ''Image upload started successfully'')]),
                                           [NanoId, BucketPut imageKey img,
                                            WorkflowCreate imageKey,
                                            InstanceStatus (JStr inst)]))))))
      else None)"

definition alttext_route :: "worker_env \<Rightarrow> request \<Rightarrow> (response \<times> effect list) option" where
  "alttext_route env req =
     (if pathname req = ROUTES_ALTTEXT
      then Some
        (case search_instanceId req of
           None \<Rightarrow> (BadRequest ''Missing instanceId parameter'', [])
         | Some i \<Rightarrow>
             if i = [] then (BadRequest ''Missing instanceId parameter'', [])
             else (case getImageAltText env i of
                     Some altText \<Rightarrow>
                       (Success (JObj [(''instanceId'', JStr i), (''altText'', altText)]),
                        [DbGetImageAltText i])
                   | None \<Rightarrow> (ServerError ''Error fetching alt text'', [DbGetImageAltText i])))
      else None)"

definition alttext_approval_route ::
  "worker_env \<Rightarrow> request \<Rightarrow> (response \<times> effect list) option" where
  "alttext_approval_route env req =
     (if pathname req = ROUTES_ALTTEXT_APPROVAL
      then Some
        (if http_method req \<noteq> ''POST'' then (MethodNotAllowed, [])
         else approval_body env ''approval-for-ai-alttext'' req)
      else None)"

definition status_route :: "worker_env \<Rightarrow> request \<Rightarrow> (response \<times> effect list) option" where
  "status_route env req =
     (if http_method req = ''GET'' \<and> pathname req = ''/''
      then Some
        (case search_instanceId req of
           None \<Rightarrow> (BadRequest ''Missing instanceId parameter'', [])
         | Some i \<Rightarrow>
             if i = [] then (BadRequest ''Missing instanceId parameter'', [])
             else if \<not> workflow_get env (JStr i)
             then (ServerError ''Error getting workflow status'', [WorkflowGet (JStr i)])
             else (case instance_status env (JStr i) of
                     None \<Rightarrow>
                       (ServerError ''Error getting workflow status'',
                        [WorkflowGet (JStr i), InstanceStatus (JStr i)])
                   | Some st \<Rightarrow>
                       (Success st, [WorkflowGet (JStr i), InstanceStatus (JStr i)])))
      else None)"

definition fallthrough :: "request \<Rightarrow> response \<times> effect list" where
  "fallthrough req =
     (if str_startsWith (pathname req) ''/favicon'' then (NotFound, [])
      else (BadRequest ''Invalid Request'', []))"

text \<open>
  The handler, block after block in the order of the source: the \<open>/tags\<close> block and the
  \<open>/approval-for-ai-tagging\<close> block stand twice, before and after the block that
  creates a workflow.
\<close>

definition fetch :: "worker_env \<Rightarrow> request \<Rightarrow> response \<times> effect list" where
  "fetch env req =
     (if http_method req = ''OPTIONS'' then (CorsPreflight, [])
      else case tags_route env req of Some r \<Rightarrow> r | None \<Rightarrow>
        (case tag_approval_route env req of Some r \<Rightarrow> r | None \<Rightarrow>
        (case create_route env req of Some r \<Rightarrow> r | None \<Rightarrow>
        (case tags_route env req of Some r \<Rightarrow> r | None \<Rightarrow>
        (case tag_approval_route env req of Some r \<Rightarrow> r | None \<Rightarrow>
        (case alttext_route env req of Some r \<Rightarrow> r | None \<Rightarrow>
        (case alttext_approval_route env req of Some r \<Rightarrow> r | None \<Rightarrow>
        (case status_route env req of Some r \<Rightarrow> r | None \<Rightarrow>
         fallthrough req))))))))"

text \<open>
  The handler of the spec's reading, "a single logical route": the same chain with the
  second copy of the \<open>/tags\<close> block and of the \<open>/approval-for-ai-tagging\<close> block removed.
\<close>

definition fetch_dedup :: "worker_env \<Rightarrow> request \<Rightarrow> response \<times> effect list" where
  "fetch_dedup env req =
     (if http_method req = ''OPTIONS'' then (CorsPreflight, [])
      else case tags_route env req of Some r \<Rightarrow> r | None \<Rightarrow>
        (case tag_approval_route env req of Some r \<Rightarrow> r | None \<Rightarrow>
        (case create_route env req of Some r \<Rightarrow> r | None \<Rightarrow>
        (case alttext_route env req of Some r \<Rightarrow> r | None \<Rightarrow>
        (case alttext_approval_route env req of Some r \<Rightarrow> r | None \<Rightarrow>
        (case status_route env req of Some r \<Rightarrow> r | None \<Rightarrow>
         fallthrough req))))))"

section \<open>The workflow (\<open>MyWorkflow.run\<close>)\<close>

text \<open>
  How a wait at an approval gate ends, seen from outside the run: the signalling
  endpoint delivered an event with a payload, or the timeout passed with no event, or
  the engine made the wait fail.
\<close>

datatype wait_result = Signal jsval | Timed_out | Wait_failed

text \<open>Modelled from the spec: \<open>step.waitForEvent\<close> belongs to the workflow engine, which is
  not among the sources. "Block until an external approval signal [...] arrives, or a
  fixed timeout (5 minutes) elapses. Timeout is treated as an implicit non-approval":
  the wait that times out resolves with an event that carries no payload, so that the
  test \<open>payload?.approved\<close> of the run fails. A wait the engine rejects throws.
\<close>

fun waitForEvent :: "wait_result \<Rightarrow> error + jsval" where
  "waitForEvent (Signal payload) = Inr payload"
| "waitForEvent Timed_out = Inr JUndefined"
| "waitForEvent Wait_failed = Inl UpstreamError"

text \<open>
  The surroundings of one run: how its two waits end, what the bucket holds under a key
  (\<open>None\<close> for \<open>null\<close>) and what \<open>AI.run\<close> answers (\<open>None\<close>: it rejects).
\<close>

record workflow_env =
  tag_gate :: wait_result
  alttext_gate :: wait_result
  bucket_get :: "string \<Rightarrow> string option"
  ai_run :: "string \<Rightarrow> string \<Rightarrow> nat \<Rightarrow> string \<Rightarrow> jsval option"

text \<open>Modelled from the spec: \<open>DatabaseService\<close> (\<open>./services/database\<close>) is not among the
  sources. A submission has an \<open>imageKey\<close> and two optional derived fields, \<open>tags\<close>
  and \<open>altText\<close>, "each populated at most once"; the store is "keyed by instance
  identifier".
\<close>

record submission =
  row_imageKey :: string
  row_tags :: "jsval option"
  row_altText :: "jsval option"

text \<open>Modelled from the spec: \<open>insertImage\<close> of the absent \<open>DatabaseService\<close>. "On
  start: persist the submission record keyed by its identifier"; a new submission has
  neither derived field. The store's operations always succeed here.
\<close>

definition insertImage ::
  "string \<Rightarrow> string \<Rightarrow> (string \<rightharpoonup> submission) \<Rightarrow> (string \<rightharpoonup> submission)" where
  "insertImage key i db = db(i \<mapsto> \<lparr>row_imageKey = key, row_tags = None, row_altText = None\<rparr>)"

text \<open>Modelled from the spec: \<open>updateImageTags\<close> of the absent \<open>DatabaseService\<close>
  ("persist the returned tag text"): it sets the \<open>tags\<close> of the submission stored under
  the identifier and touches nothing else.
\<close>

definition updateImageTags ::
  "string \<Rightarrow> jsval \<Rightarrow> (string \<rightharpoonup> submission) \<Rightarrow> (string \<rightharpoonup> submission)" where
  "updateImageTags i v db =
     (case db i of None \<Rightarrow> db | Some row \<Rightarrow> db(i \<mapsto> row\<lparr>row_tags := Some v\<rparr>))"

text \<open>Modelled from the spec: \<open>updateImageAltText\<close> of the absent \<open>DatabaseService\<close>,
  the same for the \<open>altText\<close> of the submission.
\<close>

definition updateImageAltText ::
  "string \<Rightarrow> jsval \<Rightarrow> (string \<rightharpoonup> submission) \<Rightarrow> (string \<rightharpoonup> submission)" where
  "updateImageAltText i v db =
     (case db i of None \<Rightarrow> db | Some row \<Rightarrow> db(i \<mapsto> row\<lparr>row_altText := Some v\<rparr>))"

text \<open>The calls a run makes on the engine and on its bindings, in order.\<close>

datatype wf_effect =
    InsertImage string string
  | WaitForEvent string string
  | BucketGet string
  | AiRun string string nat string
  | UpdateImageTags string jsval
  | UpdateImageAltText string jsval

record run_state =
  db :: "string \<rightharpoonup> submission"
  trace :: "wf_effect list"

definition emit :: "wf_effect \<Rightarrow> run_state \<Rightarrow> run_state" where
  "emit e st = st\<lparr>trace := trace st @ [e]\<rparr>"

text \<open>
  The callback of the two \<open>Generate\<close> steps, which differ in the configuration only:
  read the image (\<open>throw new Error('Image not found')\<close> when there is none), run the
  model on it, return \<open>response.description\<close>. A step is run once here; whether the
  engine retries a failed step is its own policy.
\<close>

definition generate ::
  "workflow_env \<Rightarrow> ai_config \<Rightarrow> string \<Rightarrow> run_state \<Rightarrow> (error + jsval) \<times> run_state" where
  "generate env cfg key st =
     (let st1 = emit (BucketGet key) st
      in case bucket_get env key of
           None \<Rightarrow> (Inl ImageNotFound, st1)
         | Some img \<Rightarrow>
             (let st2 = emit (AiRun (MODEL cfg) (PROMPT cfg) (MAX_TOKENS cfg) img) st1
              in case ai_run env (MODEL cfg) (PROMPT cfg) (MAX_TOKENS cfg) img of
                   None \<Rightarrow> (Inl UpstreamError, st2)
                 | Some response \<Rightarrow> (get_prop response ''description'', st2)))"

text \<open>The first gate and its stage: lines 63 to 90 of the run.\<close>

definition tag_stage ::
  "workflow_env \<Rightarrow> string \<Rightarrow> string \<Rightarrow> run_state \<Rightarrow> error option \<times> run_state" where
  "tag_stage env key i st =
     (let st1 = emit (WaitForEvent ''approval-for-ai-tagging'' ''5 minute'') st
      in case waitForEvent (tag_gate env) of
           Inl e \<Rightarrow> (Some e, st1)
         | Inr approvalTagsPayload \<Rightarrow>
             if truthy (opt_chain approvalTagsPayload ''approved'')
             then (case generate env AI_TAGS_CONFIG key st1 of
                     (Inl e, st2) \<Rightarrow> (Some e, st2)
                   | (Inr ai_tags, st2) \<Rightarrow>
                       (None, (emit (UpdateImageTags i ai_tags) st2)
                                \<lparr>db := updateImageTags i ai_tags (db st2)\<rparr>))
             else (None, st1))"

text \<open>The second gate and its stage: lines 92 to 119.\<close>

definition alttext_stage ::
  "workflow_env \<Rightarrow> string \<Rightarrow> string \<Rightarrow> run_state \<Rightarrow> error option \<times> run_state" where
  "alttext_stage env key i st =
     (let st1 = emit (WaitForEvent ''approval-for-ai-alttext'' ''5 minute'') st
      in case waitForEvent (alttext_gate env) of
           Inl e \<Rightarrow> (Some e, st1)
         | Inr approvalAltTextPayload \<Rightarrow>
             if truthy (opt_chain approvalAltTextPayload ''approved'')
             then (case generate env AI_ALT_TEXT_CONFIG key st1 of
                     (Inl e, st2) \<Rightarrow> (Some e, st2)
                   | (Inr ai_alt_text, st2) \<Rightarrow>
                       (None, (emit (UpdateImageAltText i ai_alt_text) st2)
                                \<lparr>db := updateImageAltText i ai_alt_text (db st2)\<rparr>))
             else (None, st1))"

text \<open>
  \<open>run\<close> for the payload's \<open>imageKey\<close> and the event's \<open>instanceId\<close>: the error that
  ended it, if any, with the store and the calls made. Nothing in \<open>run\<close> catches, so
  the first failing step ends it.
\<close>

definition run ::
  "workflow_env \<Rightarrow> string \<Rightarrow> string \<Rightarrow> (string \<rightharpoonup> submission)
     \<Rightarrow> error option \<times> run_state" where
  "run env key i db0 =
     (let st0 = \<lparr>db = insertImage key i db0, trace = [InsertImage key i]\<rparr>
      in case tag_stage env key i st0 of
           (Some e, st1) \<Rightarrow> (Some e, st1)
         | (None, st1) \<Rightarrow> alttext_stage env key i st1)"

section \<open>Properties of the poller\<close>

lemma delete_absent: "map_of xs k = None \<Longrightarrow> AList.delete k xs = xs"
  by (induction xs) (auto split: if_splits)

lemma stopPolling_pollingIntervals [simp]:
  "pollingIntervals (stopPolling i st) = AList.delete i (pollingIntervals st)"
  by (simp add: stopPolling_def clearInterval_def delete_absent split: option.splits)

lemma stopPolling_timers:
  "timers (stopPolling i st) =
     (case map_of (pollingIntervals st) i of
        Some t \<Rightarrow> filter (\<lambda>(h, j, f). h \<noteq> t) (timers st)
      | None \<Rightarrow> timers st)"
  by (simp add: stopPolling_def clearInterval_def split: option.splits)

lemma stopPolling_rest [simp]:
  "next_handle (stopPolling i st) = next_handle st"
  "updates (stopPolling i st) = updates st"
  "fetched (stopPolling i st) = fetched st"
  by (simp_all add: stopPolling_def clearInterval_def split: option.splits)

lemma stopPolling_absent: "map_of (pollingIntervals st) i = None \<Longrightarrow> stopPolling i st = st"
  by (simp add: stopPolling_def)

lemma stopPolling_table: "map_of (pollingIntervals (stopPolling i st)) i = None"
  by (simp add: delete_conv')

lemma stopPolling_twice: "stopPolling i (stopPolling i st) = stopPolling i st"
  by (rule stopPolling_absent) (rule stopPolling_table)

lemma timers_stopPolling_subset: "set (timers (stopPolling i st)) \<subseteq> set (timers st)"
  by (auto simp: stopPolling_timers split: option.splits)

lemma inv_table:
  "poller_inv st \<Longrightarrow> (h, i, f) \<in> set (timers st) \<Longrightarrow> map_of (pollingIntervals st) i = Some h"
  unfolding poller_inv_def by blast

lemma inv_fresh:
  "poller_inv st \<Longrightarrow> (i, h) \<in> set (pollingIntervals st) \<Longrightarrow> handle_no h < next_handle st"
  unfolding poller_inv_def by blast

lemma inv_distinct: "poller_inv st \<Longrightarrow> distinct (map fst (timers st))"
  unfolding poller_inv_def by blast

lemma inv_handles: "poller_inv st \<Longrightarrow> distinct (map snd (pollingIntervals st))"
  unfolding poller_inv_def by blast

lemma poller_invI:
  "distinct (map fst (timers st)) \<Longrightarrow>
   distinct (map snd (pollingIntervals st)) \<Longrightarrow>
   (\<And>h i f. (h, i, f) \<in> set (timers st) \<Longrightarrow> map_of (pollingIntervals st) i = Some h) \<Longrightarrow>
   (\<And>i h. (i, h) \<in> set (pollingIntervals st) \<Longrightarrow> handle_no h < next_handle st) \<Longrightarrow>
   poller_inv st"
  unfolding poller_inv_def by blast

lemma distinct_snd_key:
  "distinct (map snd xs) \<Longrightarrow> (a, v) \<in> set xs \<Longrightarrow> (b, v) \<in> set xs \<Longrightarrow> a = b"
  by (induction xs) force+

lemma inv_owner:
  assumes "poller_inv st" and "(h, j, f) \<in> set (timers st)"
    and "map_of (pollingIntervals st) i = Some h"
  shows "j = i"
proof -
  have "(j, h) \<in> set (pollingIntervals st)"
    using inv_table [OF assms(1,2)] by (rule map_of_SomeD)
  moreover have "(i, h) \<in> set (pollingIntervals st)"
    using assms(3) by (rule map_of_SomeD)
  ultimately show ?thesis
    using inv_handles [OF assms(1)] distinct_snd_key by fastforce
qed

lemma set_delete_subset: "set (AList.delete k xs) \<subseteq> set xs"
  by (auto simp: AList.delete_eq)

lemma distinct_snd_delete: "distinct (map snd xs) \<Longrightarrow> distinct (map snd (AList.delete k xs))"
  by (simp add: AList.delete_eq distinct_map_filter)

lemma stopPolling_inv: "poller_inv st \<Longrightarrow> poller_inv (stopPolling i st)"
proof (rule poller_invI)
  assume inv: "poller_inv st"
  show "distinct (map fst (timers (stopPolling i st)))"
    using inv_distinct [OF inv]
    by (simp add: stopPolling_timers distinct_map_filter split: option.splits)
  show "distinct (map snd (pollingIntervals (stopPolling i st)))"
    using inv_handles [OF inv] by (simp add: distinct_snd_delete)
next
  fix j h
  assume inv: "poller_inv st" and "(j, h) \<in> set (pollingIntervals (stopPolling i st))"
  then have "(j, h) \<in> set (pollingIntervals st)"
    using set_delete_subset by fastforce
  then show "handle_no h < next_handle (stopPolling i st)"
    using inv_fresh [OF inv] by simp
next
  fix h j f
  assume inv: "poller_inv st" and mem: "(h, j, f) \<in> set (timers (stopPolling i st))"
  from mem have mem': "(h, j, f) \<in> set (timers st)"
    using timers_stopPolling_subset by blast
  have tbl: "map_of (pollingIntervals st) j = Some h"
    by (rule inv_table [OF inv mem'])
  have "j \<noteq> i"
  proof
    assume "j = i"
    with tbl mem show False by (simp add: stopPolling_timers)
  qed
  with tbl show "map_of (pollingIntervals (stopPolling i st)) j = Some h"
    by (simp add: delete_conv')
qed


lemma stopPolling_active_other:
  assumes "poller_inv st" and "j \<noteq> i"
  shows "active_for j (stopPolling i st) = active_for j st"
proof (cases "map_of (pollingIntervals st) i")
  case None
  then show ?thesis by (simp add: stopPolling_absent)
next
  case (Some t)
  have "\<And>h k f. (h, k, f) \<in> set (timers st) \<Longrightarrow> k = j \<Longrightarrow> h \<noteq> t"
    using inv_owner [OF assms(1)] Some assms(2) by blast
  then show ?thesis
    unfolding active_for_def
    by (auto simp: stopPolling_timers Some intro!: filter_cong)
qed


lemma update_absent: "map_of xs k = None \<Longrightarrow> AList.update k v xs = xs @ [(k, v)]"
  by (induction xs) (auto split: if_splits)


lemma startPolling_pollingIntervals:
  "pollingIntervals (startPolling i f st) =
     AList.delete i (pollingIntervals st) @ [(i, Timeout (next_handle st))]"
  by (simp add: startPolling_def setInterval_def Let_def update_absent delete_conv')

lemma startPolling_rest [simp]:
  "next_handle (startPolling i f st) = Suc (next_handle st)"
  "updates (startPolling i f st) = updates st"
  "fetched (startPolling i f st) = fetched st"
  by (simp_all add: startPolling_def setInterval_def Let_def)





lemma clearInterval_fields [simp]:
  "timers (clearInterval t st) = filter (\<lambda>(h, i, f). h \<noteq> t) (timers st)"
  "pollingIntervals (clearInterval t st) = pollingIntervals st"
  by (simp_all add: clearInterval_def)

lemma fold_clearInterval_timers:
  "timers (fold clearInterval hs st) = filter (\<lambda>(h, i, f). h \<notin> set hs) (timers st)"
  by (induction hs arbitrary: st) (auto simp: case_prod_unfold intro!: filter_cong)

lemma fold_clearInterval_pollingIntervals:
  "pollingIntervals (fold clearInterval hs st) = pollingIntervals st"
  by (induction hs arbitrary: st) simp_all

subsection \<open>Stopping, starting and tearing down\<close>

text \<open>
  C7. \<open>stopPolling\<close> is idempotent: on an identifier with no entry in the table it
  returns the state it was given (it has no error result at all), and applying it twice
  gives what applying it once gives.
\<close>

theorem stopPolling_idempotent:
  "(map_of (pollingIntervals st) i = None \<longrightarrow> stopPolling i st = st) \<and>
   stopPolling i (stopPolling i st) = stopPolling i st"
  using stopPolling_absent stopPolling_twice by blast

theorem stopPolling_idempotent_witness:
  "map_of (pollingIntervals (startPolling ''A'' ''a.png'' initial_poller)) ''B'' = None \<and>
   stopPolling ''B'' (startPolling ''A'' ''a.png'' initial_poller)
     = startPolling ''A'' ''a.png'' initial_poller \<and>
   stopPolling ''A'' (stopPolling ''A'' (startPolling ''A'' ''a.png'' initial_poller))
     = stopPolling ''A'' (startPolling ''A'' ''a.png'' initial_poller)"
proof -
  have h: "map_of (pollingIntervals (startPolling ''A'' ''a.png'' initial_poller)) ''B'' = None"
    by (simp add: startPolling_pollingIntervals initial_poller_def)
  show ?thesis
    using h stopPolling_idempotent [of "startPolling ''A'' ''a.png'' initial_poller" "''B''"]
      stopPolling_idempotent [of "startPolling ''A'' ''a.png'' initial_poller" "''A''"]
    by simp
qed





subsection \<open>One tick\<close>

lemma onStatusUpdate_fields [simp]:
  "timers (onStatusUpdate u st) = timers st"
  "pollingIntervals (onStatusUpdate u st) = pollingIntervals st"
  "next_handle (onStatusUpdate u st) = next_handle st"
  "updates (onStatusUpdate u st) = updates st @ [u]"
  "fetched (onStatusUpdate u st) = fetched st"
  by (simp_all add: onStatusUpdate_def)

lemma fetch_json_fields [simp]:
  "fst (fetch_json env url st) = query env url"
  "timers (snd (fetch_json env url st)) = timers st"
  "pollingIntervals (snd (fetch_json env url st)) = pollingIntervals st"
  "next_handle (snd (fetch_json env url st)) = next_handle st"
  "updates (snd (fetch_json env url st)) = updates st"
  "fetched (snd (fetch_json env url st)) = fetched st @ [url]"
  by (simp_all add: fetch_json_def)

lemma stopPolling_onStatusUpdate:
  "stopPolling i (onStatusUpdate u st) = onStatusUpdate u (stopPolling i st)"
  by (simp add: stopPolling_def onStatusUpdate_def clearInterval_def split: option.splits)

lemma stopPolling_fetch_json:
  "stopPolling i (snd (fetch_json env url st)) = snd (fetch_json env url (stopPolling i st))"
  by (simp add: stopPolling_def fetch_json_def clearInterval_def split: option.splits)

lemma handleError_fields [simp]:
  "timers (handleError i f st) = timers (stopPolling i st)"
  "pollingIntervals (handleError i f st) = AList.delete i (pollingIntervals st)"
  "next_handle (handleError i f st) = next_handle st"
  "updates (handleError i f st) = updates st @
     [\<lparr>fileName = f, status = JStr ''error'', instanceId = i,
       aiTags = JUndefined, aiAltText = JUndefined\<rparr>]"
  "fetched (handleError i f st) = fetched st"
  by (simp_all add: handleError_def stopPolling_onStatusUpdate)

lemma fetchWorkflowRes_unfold:
  "fetchWorkflowRes env i f st =
     (let st1 = snd (fetch_json env (alttext_url env i) st);
          st2 = snd (fetch_json env (tags_url env i) st1)
      in case query env (alttext_url env i) of
           Inl e \<Rightarrow> handleError i f st1
         | Inr altTextData \<Rightarrow>
             (case query env (tags_url env i) of
                Inl e \<Rightarrow> handleError i f st2
              | Inr tagsData \<Rightarrow>
                  (case get_prop tagsData ''tags'' of
                     Inl e \<Rightarrow> handleError i f st2
                   | Inr tags \<Rightarrow>
                       (case get_prop altTextData ''altText'' of
                          Inl e \<Rightarrow> handleError i f st2
                        | Inr altText \<Rightarrow>
                            stopPolling i
                              (onStatusUpdate
                                 \<lparr>fileName = f, status = JStr ''complete'', instanceId = i,
                                  aiTags = tags, aiAltText = altText\<rparr> st2)))))"
  by (simp add: fetchWorkflowRes_def fetch_json_def Let_def split: sum.splits)

lemma fetchWorkflowRes_stops [simp]:
  "timers (fetchWorkflowRes env i f st) = timers (stopPolling i st)"
  "pollingIntervals (fetchWorkflowRes env i f st) = AList.delete i (pollingIntervals st)"
  "next_handle (fetchWorkflowRes env i f st) = next_handle st"
  by (simp_all add: fetchWorkflowRes_unfold Let_def stopPolling_onStatusUpdate
        stopPolling_fetch_json split: sum.splits)

lemma pollStatus_unfold:
  "pollStatus env i f st =
     (let st1 = snd (fetch_json env (status_url env i) st)
      in case query env (status_url env i) of
           Inl e \<Rightarrow> handleError i f st1
         | Inr data \<Rightarrow>
             (case get_prop data ''status'' of
                Inl e \<Rightarrow> handleError i f st1
              | Inr s \<Rightarrow>
                  (let st2 = onStatusUpdate
                               \<lparr>fileName = f, status = s, instanceId = i,
                                aiTags = JUndefined, aiAltText = JUndefined\<rparr> st1
                   in if s = JStr ''complete''
                      then stopPolling i (fetchWorkflowRes env i f st2)
                      else (case get_prop data ''error'' of
                              Inl e \<Rightarrow> handleError i f st2
                            | Inr err \<Rightarrow> if truthy err then handleError i f st2 else st2))))"
  by (simp add: pollStatus_def fetch_json_def Let_def split: sum.splits)

lemma stopPolling_stopped_timers:
  "timers (stopPolling i (stopPolling i st)) = timers (stopPolling i st)"
  by (simp add: stopPolling_twice)

lemma pollStatus_next_handle [simp]:
  "next_handle (pollStatus env i f st) = next_handle st"
  by (simp add: pollStatus_unfold Let_def split: sum.splits)

lemma pollStatus_table:
  "pollingIntervals (pollStatus env i f st) = pollingIntervals st \<and>
     timers (pollStatus env i f st) = timers st \<or>
   pollingIntervals (pollStatus env i f st) = AList.delete i (pollingIntervals st) \<and>
     timers (pollStatus env i f st) = timers (stopPolling i st)"
  by (simp add: pollStatus_unfold Let_def stopPolling_onStatusUpdate
        stopPolling_fetch_json delete_idem stopPolling_timers [of i "fetchWorkflowRes _ _ _ _"] delete_conv' split: sum.splits)


lemma poller_inv_cong:
  "timers a = timers b \<Longrightarrow> pollingIntervals a = pollingIntervals b \<Longrightarrow>
   next_handle a = next_handle b \<Longrightarrow> poller_inv a = poller_inv b"
  by (simp add: poller_inv_def)


lemma pollStatus_inv:
  assumes "poller_inv st"
  shows "poller_inv (pollStatus env i f st)"
  using pollStatus_table [of env i f st]
proof
  assume "pollingIntervals (pollStatus env i f st) = pollingIntervals st \<and>
          timers (pollStatus env i f st) = timers st"
  then show ?thesis
    using assms poller_inv_cong [of "pollStatus env i f st" st] by simp
next
  assume "pollingIntervals (pollStatus env i f st) = AList.delete i (pollingIntervals st) \<and>
          timers (pollStatus env i f st) = timers (stopPolling i st)"
  then show ?thesis
    using stopPolling_inv [OF assms, of i]
      poller_inv_cong [of "pollStatus env i f st" "stopPolling i st"] by simp
qed


lemma fire_inv: "poller_inv st \<Longrightarrow> poller_inv (fire e st)"
  by (simp add: fire_def pollStatus_inv split: option.splits prod.splits)

lemma cleanup_inv:
  assumes "poller_inv st"
  shows "poller_inv (cleanup st)"
proof (rule poller_invI)
  have sub: "set (timers (cleanup st)) \<subseteq> set (timers st)"
    by (auto simp: cleanup_def fold_clearInterval_timers)
  have tbl: "pollingIntervals (cleanup st) = pollingIntervals st"
    by (simp add: cleanup_def fold_clearInterval_pollingIntervals)
  show "distinct (map fst (timers (cleanup st)))"
    using inv_distinct [OF assms]
    by (simp add: cleanup_def fold_clearInterval_timers distinct_map_filter)
  show "distinct (map snd (pollingIntervals (cleanup st)))"
    using inv_handles [OF assms] by (simp add: tbl)
  show "map_of (pollingIntervals (cleanup st)) i = Some h"
    if "(h, i, f) \<in> set (timers (cleanup st))" for h i f
    using inv_table [OF assms] that sub by (auto simp: tbl)
  have "next_handle (fold clearInterval hs st) = next_handle st" for hs
    by (induction hs arbitrary: st) (simp_all add: clearInterval_def)
  then show "handle_no h < next_handle (cleanup st)"
    if "(i, h) \<in> set (pollingIntervals (cleanup st))" for i h
    using inv_fresh [OF assms, of i h] that
    by (simp add: cleanup_def fold_clearInterval_pollingIntervals)
qed

lemma handleError_stopped:
  "map_of (pollingIntervals (handleError i f st)) i = None"
  by (simp add: delete_conv')





subsection \<open>The outcomes of a tick\<close>














section \<open>Properties of the HTTP boundary\<close>

lemmas route_names = ROUTES_TAGS_def ROUTES_TAG_APPROVAL_def ROUTES_ALTTEXT_def
  ROUTES_ALTTEXT_APPROVAL_def

lemmas status_numbers = HTTP_STATUS_OK_def HTTP_STATUS_BAD_REQUEST_def HTTP_STATUS_NOT_FOUND_def
  HTTP_STATUS_METHOD_NOT_ALLOWED_def HTTP_STATUS_INTERNAL_SERVER_ERROR_def

text \<open>
  C9. The handler with the \<open>/tags\<close> block and the \<open>/approval-for-ai-tagging\<close> block
  written twice and the handler with the second copy of each removed give, for every
  request and every behaviour of the bindings, the same response and the same calls.
\<close>

theorem fetch_duplicate_blocks_dead: "fetch env req = fetch_dedup env req"
  by (simp add: fetch_def fetch_dedup_def split: option.splits)

lemma tags_route_not_405:
  "tags_route env req = Some r \<Longrightarrow> fst r \<noteq> MethodNotAllowed"
  by (auto simp: tags_route_def split: if_splits option.splits)

lemma alttext_route_not_405:
  "alttext_route env req = Some r \<Longrightarrow> fst r \<noteq> MethodNotAllowed"
  by (auto simp: alttext_route_def split: if_splits option.splits)

lemma approval_body_not_405: "fst (approval_body env ty req) \<noteq> MethodNotAllowed"
  by (simp add: approval_body_def split: option.splits sum.splits)

lemma create_route_not_405:
  "create_route env req = Some r \<Longrightarrow> fst r \<noteq> MethodNotAllowed"
  by (auto simp: create_route_def Let_def split: if_splits option.splits form_value.splits)

lemma status_route_not_405:
  "status_route env req = Some r \<Longrightarrow> fst r \<noteq> MethodNotAllowed"
  by (auto simp: status_route_def split: if_splits option.splits)

lemma fallthrough_not_405: "fst (fallthrough req) \<noteq> MethodNotAllowed"
  by (simp add: fallthrough_def)

lemma status_405: "status_code r = Some HTTP_STATUS_METHOD_NOT_ALLOWED \<longleftrightarrow> r = MethodNotAllowed"
  by (cases r) (simp_all add: status_numbers)

lemma fetch_405:
  "fst (fetch env req) = MethodNotAllowed \<longleftrightarrow>
     http_method req \<noteq> ''POST'' \<and> http_method req \<noteq> ''OPTIONS'' \<and>
     (pathname req = ROUTES_TAG_APPROVAL \<or> pathname req = ROUTES_ALTTEXT_APPROVAL)"
proof (cases "http_method req = ''OPTIONS''")
  case True
  then show ?thesis by (simp add: fetch_def)
next
  case opt: False
  show ?thesis
  proof (cases "tags_route env req")
    case (Some r)
    then have "pathname req = ROUTES_TAGS" by (simp add: tags_route_def split: if_splits)
    with Some tags_route_not_405 [OF Some] opt show ?thesis
      by (simp add: fetch_def route_names)
  next
    case t: None
    then have nt: "pathname req \<noteq> ROUTES_TAGS" by (simp add: tags_route_def split: if_splits)
    show ?thesis
    proof (cases "pathname req = ROUTES_TAG_APPROVAL")
      case True
      then show ?thesis
        using opt t approval_body_not_405 [of env "''approval-for-ai-tagging''" req]
        by (simp add: fetch_def tag_approval_route_def)
    next
      case nta: False
      then have ta: "tag_approval_route env req = None" by (simp add: tag_approval_route_def)
      show ?thesis
      proof (cases "create_route env req")
        case (Some r)
        then have "pathname req = ''/''" by (simp add: create_route_def split: if_splits)
        with Some create_route_not_405 [OF Some] opt t ta show ?thesis
          by (simp add: fetch_def route_names)
      next
        case c: None
        show ?thesis
        proof (cases "alttext_route env req")
          case (Some r)
          then have "pathname req = ROUTES_ALTTEXT" by (simp add: alttext_route_def split: if_splits)
          with Some alttext_route_not_405 [OF Some] opt t ta c show ?thesis
            by (simp add: fetch_def route_names)
        next
          case a: None
          show ?thesis
          proof (cases "pathname req = ROUTES_ALTTEXT_APPROVAL")
            case True
            then show ?thesis
              using opt t ta c a approval_body_not_405 [of env "''approval-for-ai-alttext''" req]
              by (simp add: fetch_def alttext_approval_route_def)
          next
            case naa: False
            then have aa: "alttext_approval_route env req = None"
              by (simp add: alttext_approval_route_def)
            show ?thesis
            proof (cases "status_route env req")
              case (Some r)
              with status_route_not_405 [OF Some] opt t ta c a aa nta naa show ?thesis
                by (simp add: fetch_def)
            next
              case None
              with fallthrough_not_405 [of req] opt t ta c a aa nta naa show ?thesis
                by (simp add: fetch_def)
            qed
          qed
        qed
      qed
    qed
  qed
qed


theorem fetch_duplicate_blocks_dead_witness:
  "fetch \<lparr>getImageTags = (\<lambda>i. Some (JStr ''cat, pet'')), getImageAltText = (\<lambda>i. None),
          workflow_get = (\<lambda>i. True), sendEvent = (\<lambda>i t b. True),
          instance_status = (\<lambda>i. None), nanoid = ''k1'', bucket_put = (\<lambda>k v. True),
          workflow_create = (\<lambda>k. None)\<rparr>
         \<lparr>http_method = ''GET'', pathname = ''/tags'', search_instanceId = Some ''X'',
          content_type = None, json_body = None, form_image = None\<rparr>
     = (Success (JObj [(''instanceId'', JStr ''X''), (''tags'', JStr ''cat, pet'')]),
        [DbGetImageTags ''X'']) \<and>
   fetch_dedup \<lparr>getImageTags = (\<lambda>i. Some (JStr ''cat, pet'')), getImageAltText = (\<lambda>i. None),
          workflow_get = (\<lambda>i. True), sendEvent = (\<lambda>i t b. True),
          instance_status = (\<lambda>i. None), nanoid = ''k1'', bucket_put = (\<lambda>k v. True),
          workflow_create = (\<lambda>k. None)\<rparr>
         \<lparr>http_method = ''GET'', pathname = ''/tags'', search_instanceId = Some ''X'',
          content_type = None, json_body = None, form_image = None\<rparr>
     = (Success (JObj [(''instanceId'', JStr ''X''), (''tags'', JStr ''cat, pet'')]),
        [DbGetImageTags ''X''])"
  using fetch_duplicate_blocks_dead
    [of "\<lparr>getImageTags = (\<lambda>i. Some (JStr ''cat, pet'')), getImageAltText = (\<lambda>i. None),
          workflow_get = (\<lambda>i. True), sendEvent = (\<lambda>i t b. True),
          instance_status = (\<lambda>i. None), nanoid = ''k1'', bucket_put = (\<lambda>k v. True),
          workflow_create = (\<lambda>k. None)\<rparr>"
        "\<lparr>http_method = ''GET'', pathname = ''/tags'', search_instanceId = Some ''X'',
          content_type = None, json_body = None, form_image = None\<rparr>"]
  by (simp add: fetch_dedup_def tags_route_def route_names)




text \<open>
  C10, as amended. For every request other than OPTIONS to \<open>/tags\<close> or \<open>/alttext\<close> with
  a non-empty \<open>instanceId\<close> parameter the lookup is made whatever the method is; the
  success payload is returned when the lookup succeeds and the 500 response when it
  throws. The handler answers 405 exactly for the requests to one of the two approval
  routes whose method is neither POST nor OPTIONS.
\<close>

theorem lookup_routes_ignore_method:
  "(http_method req \<noteq> ''OPTIONS'' \<and> pathname req = ROUTES_TAGS \<and>
    search_instanceId req = Some i \<and> i \<noteq> [] \<longrightarrow>
      fetch env req =
        (case getImageTags env i of
           Some tags \<Rightarrow>
             (Success (JObj [(''instanceId'', JStr i), (''tags'', tags)]), [DbGetImageTags i])
         | None \<Rightarrow> (ServerError ''Error fetching tags'', [DbGetImageTags i]))) \<and>
   (http_method req \<noteq> ''OPTIONS'' \<and> pathname req = ROUTES_ALTTEXT \<and>
    search_instanceId req = Some i \<and> i \<noteq> [] \<longrightarrow>
      fetch env req =
        (case getImageAltText env i of
           Some altText \<Rightarrow>
             (Success (JObj [(''instanceId'', JStr i), (''altText'', altText)]),
              [DbGetImageAltText i])
         | None \<Rightarrow> (ServerError ''Error fetching alt text'', [DbGetImageAltText i]))) \<and>
   (status_code (fst (fetch env req)) = Some HTTP_STATUS_METHOD_NOT_ALLOWED \<longleftrightarrow>
      http_method req \<noteq> ''POST'' \<and> http_method req \<noteq> ''OPTIONS'' \<and>
      (pathname req = ROUTES_TAG_APPROVAL \<or> pathname req = ROUTES_ALTTEXT_APPROVAL))"
proof -
  have a: "fetch env req =
        (case getImageTags env i of
           Some tags \<Rightarrow>
             (Success (JObj [(''instanceId'', JStr i), (''tags'', tags)]), [DbGetImageTags i])
         | None \<Rightarrow> (ServerError ''Error fetching tags'', [DbGetImageTags i]))"
    if "http_method req \<noteq> ''OPTIONS''" "pathname req = ROUTES_TAGS"
      "search_instanceId req = Some i" "i \<noteq> []"
    using that by (simp add: fetch_def tags_route_def)
  have b: "fetch env req =
        (case getImageAltText env i of
           Some altText \<Rightarrow>
             (Success (JObj [(''instanceId'', JStr i), (''altText'', altText)]),
              [DbGetImageAltText i])
         | None \<Rightarrow> (ServerError ''Error fetching alt text'', [DbGetImageAltText i]))"
    if "http_method req \<noteq> ''OPTIONS''" "pathname req = ROUTES_ALTTEXT"
      "search_instanceId req = Some i" "i \<noteq> []"
    using that
    by (simp add: fetch_def tags_route_def tag_approval_route_def create_route_def
          alttext_route_def route_names)
  from a b fetch_405 [of env req] status_405 [of "fst (fetch env req)"]
  show ?thesis by blast
qed

theorem lookup_routes_ignore_method_witness:
  "fetch \<lparr>getImageTags = (\<lambda>i. Some (JStr ''cat, pet'')), getImageAltText = (\<lambda>i. None),
          workflow_get = (\<lambda>i. True), sendEvent = (\<lambda>i t b. True),
          instance_status = (\<lambda>i. None), nanoid = ''k1'', bucket_put = (\<lambda>k v. True),
          workflow_create = (\<lambda>k. None)\<rparr>
         \<lparr>http_method = ''POST'', pathname = ''/tags'', search_instanceId = Some ''X'',
          content_type = None, json_body = None, form_image = None\<rparr>
     = (Success (JObj [(''instanceId'', JStr ''X''), (''tags'', JStr ''cat, pet'')]),
        [DbGetImageTags ''X'']) \<and>
   fetch \<lparr>getImageTags = (\<lambda>i. Some (JStr ''cat, pet'')), getImageAltText = (\<lambda>i. None),
          workflow_get = (\<lambda>i. True), sendEvent = (\<lambda>i t b. True),
          instance_status = (\<lambda>i. None), nanoid = ''k1'', bucket_put = (\<lambda>k v. True),
          workflow_create = (\<lambda>k. None)\<rparr>
         \<lparr>http_method = ''POST'', pathname = ''/alttext'', search_instanceId = Some ''X'',
          content_type = None, json_body = None, form_image = None\<rparr>
     = (ServerError ''Error fetching alt text'', [DbGetImageAltText ''X'']) \<and>
   status_code (fst (fetch
         \<lparr>getImageTags = (\<lambda>i. Some (JStr ''cat, pet'')), getImageAltText = (\<lambda>i. None),
          workflow_get = (\<lambda>i. True), sendEvent = (\<lambda>i t b. True),
          instance_status = (\<lambda>i. None), nanoid = ''k1'', bucket_put = (\<lambda>k v. True),
          workflow_create = (\<lambda>k. None)\<rparr>
         \<lparr>http_method = ''GET'', pathname = ''/approval-for-ai-alttext'',
          search_instanceId = None, content_type = None, json_body = None,
          form_image = None\<rparr>)) = Some 405"
proof -
  let ?env = "\<lparr>getImageTags = (\<lambda>i. Some (JStr ''cat, pet'')), getImageAltText = (\<lambda>i. None),
          workflow_get = (\<lambda>i. True), sendEvent = (\<lambda>i t b. True),
          instance_status = (\<lambda>i. None), nanoid = ''k1'', bucket_put = (\<lambda>k v. True),
          workflow_create = (\<lambda>k. None)\<rparr>"
  let ?a = "\<lparr>http_method = ''POST'', pathname = ''/tags'', search_instanceId = Some ''X'',
          content_type = None, json_body = None, form_image = None\<rparr>"
  let ?b = "\<lparr>http_method = ''POST'', pathname = ''/alttext'', search_instanceId = Some ''X'',
          content_type = None, json_body = None, form_image = None\<rparr>"
  let ?c = "\<lparr>http_method = ''GET'', pathname = ''/approval-for-ai-alttext'',
          search_instanceId = None, content_type = None, json_body = None,
          form_image = None\<rparr>"
  show ?thesis
    using lookup_routes_ignore_method [of ?a "''X''" ?env]
      lookup_routes_ignore_method [of ?b "''X''" ?env]
      lookup_routes_ignore_method [of ?c "''X''" ?env]
    by (simp add: route_names status_numbers)
qed

text \<open>
  C10 as stated fails: an OPTIONS request to \<open>/tags\<close> with an \<open>instanceId\<close> gets the
  preflight response and no lookup is made; and a GET whose lookup throws gets the
  500 response, not the success payload.
\<close>

theorem lookup_routes_options_counterexample:
  "fetch \<lparr>getImageTags = (\<lambda>i. Some (JStr ''cat, pet'')), getImageAltText = (\<lambda>i. None),
          workflow_get = (\<lambda>i. True), sendEvent = (\<lambda>i t b. True),
          instance_status = (\<lambda>i. None), nanoid = ''k1'', bucket_put = (\<lambda>k v. True),
          workflow_create = (\<lambda>k. None)\<rparr>
         \<lparr>http_method = ''OPTIONS'', pathname = ''/tags'', search_instanceId = Some ''X'',
          content_type = None, json_body = None, form_image = None\<rparr>
     = (CorsPreflight, []) \<and>
   fetch \<lparr>getImageTags = (\<lambda>i. None), getImageAltText = (\<lambda>i. None),
          workflow_get = (\<lambda>i. True), sendEvent = (\<lambda>i t b. True),
          instance_status = (\<lambda>i. None), nanoid = ''k1'', bucket_put = (\<lambda>k v. True),
          workflow_create = (\<lambda>k. None)\<rparr>
         \<lparr>http_method = ''GET'', pathname = ''/tags'', search_instanceId = Some ''X'',
          content_type = None, json_body = None, form_image = None\<rparr>
     = (ServerError ''Error fetching tags'', [DbGetImageTags ''X''])"
  by (simp add: fetch_def tags_route_def route_names)

section \<open>Properties of the workflow\<close>

lemma prompts_differ: "PROMPT AI_TAGS_CONFIG \<noteq> PROMPT AI_ALT_TEXT_CONFIG"
  by (simp add: AI_TAGS_CONFIG_def AI_ALT_TEXT_CONFIG_def)

lemma emit_fields [simp]:
  "trace (emit e st) = trace st @ [e]"
  "db (emit e st) = db st"
  by (simp_all add: emit_def)

lemma generate_db [simp]: "db (snd (generate env cfg key st)) = db st"
  by (simp add: generate_def Let_def split: option.splits)

lemma generate_trace:
  "\<exists>es. trace (snd (generate env cfg key st)) = trace st @ es \<and>
        set es \<subseteq> insert (BucketGet key)
                   {AiRun (MODEL cfg) (PROMPT cfg) (MAX_TOKENS cfg) img | img. True}"
  by (auto simp: generate_def Let_def split: option.splits)

lemma tag_stage_skip:
  assumes "tag_gate env = Timed_out \<or>
           (\<exists>p. tag_gate env = Signal p \<and> \<not> truthy (opt_chain p ''approved''))"
  shows "tag_stage env key i st =
           (None, emit (WaitForEvent ''approval-for-ai-tagging'' ''5 minute'') st)"
  using assms by (auto simp: tag_stage_def Let_def)

lemma alttext_stage_skip:
  assumes "alttext_gate env = Timed_out \<or>
           (\<exists>p. alttext_gate env = Signal p \<and> \<not> truthy (opt_chain p ''approved''))"
  shows "alttext_stage env key i st =
           (None, emit (WaitForEvent ''approval-for-ai-alttext'' ''5 minute'') st)"
  using assms by (auto simp: alttext_stage_def Let_def)

lemma alttext_stage_trace:
  "\<exists>es. trace (snd (alttext_stage env key i st)) =
          trace st @ WaitForEvent ''approval-for-ai-alttext'' ''5 minute'' # es \<and>
        set es \<subseteq> insert (BucketGet key)
                   ({AiRun (MODEL AI_ALT_TEXT_CONFIG) (PROMPT AI_ALT_TEXT_CONFIG)
                       (MAX_TOKENS AI_ALT_TEXT_CONFIG) img | img. True} \<union>
                    {UpdateImageAltText i v | v. True})"
proof (cases "waitForEvent (alttext_gate env)")
  case (Inl e)
  then show ?thesis by (simp add: alttext_stage_def Let_def)
next
  case (Inr p)
  show ?thesis
  proof (cases "truthy (opt_chain p ''approved'')")
    case False
    with Inr show ?thesis by (simp add: alttext_stage_def Let_def del: opt_chain.simps)
  next
    case True
    let ?st1 = "emit (WaitForEvent ''approval-for-ai-alttext'' ''5 minute'') st"
    obtain es where es: "trace (snd (generate env AI_ALT_TEXT_CONFIG key ?st1)) = trace ?st1 @ es"
      "set es \<subseteq> insert (BucketGet key)
                   {AiRun (MODEL AI_ALT_TEXT_CONFIG) (PROMPT AI_ALT_TEXT_CONFIG)
                       (MAX_TOKENS AI_ALT_TEXT_CONFIG) img | img. True}"
      using generate_trace by blast
    show ?thesis
    proof (cases "fst (generate env AI_ALT_TEXT_CONFIG key ?st1)")
      case (Inl e)
      then have "trace (snd (alttext_stage env key i st)) =
                   trace st @ WaitForEvent ''approval-for-ai-alttext'' ''5 minute'' # es"
        using Inr True es(1)
        by (simp add: alttext_stage_def Let_def split_beta del: opt_chain.simps)
      with es(2) show ?thesis by blast
    next
      case g: (Inr v)
      then have "trace (snd (alttext_stage env key i st)) =
                   trace st @ WaitForEvent ''approval-for-ai-alttext'' ''5 minute'' #
                     (es @ [UpdateImageAltText i v])"
        using Inr True es(1)
        by (simp add: alttext_stage_def Let_def split_beta del: opt_chain.simps)
      moreover have "set (es @ [UpdateImageAltText i v]) \<subseteq> insert (BucketGet key)
                   ({AiRun (MODEL AI_ALT_TEXT_CONFIG) (PROMPT AI_ALT_TEXT_CONFIG)
                       (MAX_TOKENS AI_ALT_TEXT_CONFIG) img | img. True} \<union>
                    {UpdateImageAltText i v | v. True})"
        using es(2) by auto
      ultimately show ?thesis by blast
    qed
  qed
qed

lemma alttext_stage_tags:
  "map_option row_tags (db (snd (alttext_stage env key i st)) j) = map_option row_tags (db st j)"
  by (simp add: alttext_stage_def Let_def split_beta updateImageAltText_def
        split: sum.splits option.splits del: opt_chain.simps)


lemma tag_stage_trace:
  "\<exists>es. trace (snd (tag_stage env key i st)) =
          trace st @ WaitForEvent ''approval-for-ai-tagging'' ''5 minute'' # es \<and>
        set es \<subseteq> insert (BucketGet key)
                   ({AiRun (MODEL AI_TAGS_CONFIG) (PROMPT AI_TAGS_CONFIG)
                       (MAX_TOKENS AI_TAGS_CONFIG) img | img. True} \<union>
                    {UpdateImageTags i v | v. True})"
proof (cases "waitForEvent (tag_gate env)")
  case (Inl e)
  then show ?thesis by (simp add: tag_stage_def Let_def)
next
  case (Inr p)
  show ?thesis
  proof (cases "truthy (opt_chain p ''approved'')")
    case False
    with Inr show ?thesis by (simp add: tag_stage_def Let_def del: opt_chain.simps)
  next
    case True
    let ?st1 = "emit (WaitForEvent ''approval-for-ai-tagging'' ''5 minute'') st"
    obtain es where es: "trace (snd (generate env AI_TAGS_CONFIG key ?st1)) = trace ?st1 @ es"
      "set es \<subseteq> insert (BucketGet key)
                   {AiRun (MODEL AI_TAGS_CONFIG) (PROMPT AI_TAGS_CONFIG)
                       (MAX_TOKENS AI_TAGS_CONFIG) img | img. True}"
      using generate_trace by blast
    show ?thesis
    proof (cases "fst (generate env AI_TAGS_CONFIG key ?st1)")
      case (Inl e)
      then have "trace (snd (tag_stage env key i st)) =
                   trace st @ WaitForEvent ''approval-for-ai-tagging'' ''5 minute'' # es"
        using Inr True es(1)
        by (simp add: tag_stage_def Let_def split_beta del: opt_chain.simps)
      with es(2) show ?thesis by blast
    next
      case g: (Inr v)
      then have "trace (snd (tag_stage env key i st)) =
                   trace st @ WaitForEvent ''approval-for-ai-tagging'' ''5 minute'' #
                     (es @ [UpdateImageTags i v])"
        using Inr True es(1)
        by (simp add: tag_stage_def Let_def split_beta del: opt_chain.simps)
      moreover have "set (es @ [UpdateImageTags i v]) \<subseteq> insert (BucketGet key)
                   ({AiRun (MODEL AI_TAGS_CONFIG) (PROMPT AI_TAGS_CONFIG)
                       (MAX_TOKENS AI_TAGS_CONFIG) img | img. True} \<union>
                    {UpdateImageTags i v | v. True})"
        using es(2) by auto
      ultimately show ?thesis by blast
    qed
  qed
qed

lemma tag_stage_altText:
  "map_option row_altText (db (snd (tag_stage env key i st)) j) = map_option row_altText (db st j)"
  by (simp add: tag_stage_def Let_def split_beta updateImageTags_def
        split: sum.splits option.splits del: opt_chain.simps)

lemma run_unfold:
  "run env key i db0 =
     (let r = tag_stage env key i \<lparr>db = insertImage key i db0, trace = [InsertImage key i]\<rparr>
      in case fst r of Some e \<Rightarrow> (Some e, snd r) | None \<Rightarrow> alttext_stage env key i (snd r))"
  by (simp add: run_def Let_def split: prod.splits option.splits)

lemma run_wait_failed:
  "tag_gate env = Wait_failed \<Longrightarrow>
   run env key i db0 =
     (Some UpstreamError,
      \<lparr>db = insertImage key i db0,
       trace = [InsertImage key i, WaitForEvent ''approval-for-ai-tagging'' ''5 minute'']\<rparr>)"
  by (simp add: run_def tag_stage_def emit_def Let_def)

text \<open>
  C2. When the wait at an approval gate times out, or delivers a payload whose
  \<open>approved\<close> is false (or missing), the stage behind the gate is skipped: the run makes
  no inference call with that stage's configuration and no write of that stage's field,
  it goes on (after the first gate to the wait at the second, after the second to its
  end with no error of this stage), and the stage's field of the submission is unset in
  the store the run leaves.
\<close>

theorem unapproved_gate_skips_stage:
  "(tag_gate env = Timed_out \<or>
    (\<exists>p. tag_gate env = Signal p \<and> \<not> truthy (opt_chain p ''approved'')) \<longrightarrow>
      (\<forall>img. AiRun (MODEL AI_TAGS_CONFIG) (PROMPT AI_TAGS_CONFIG) (MAX_TOKENS AI_TAGS_CONFIG) img
              \<notin> set (trace (snd (run env key i db0)))) \<and>
      (\<forall>j v. UpdateImageTags j v \<notin> set (trace (snd (run env key i db0)))) \<and>
      take 3 (trace (snd (run env key i db0))) =
        [InsertImage key i, WaitForEvent ''approval-for-ai-tagging'' ''5 minute'',
         WaitForEvent ''approval-for-ai-alttext'' ''5 minute''] \<and>
      map_option row_tags (db (snd (run env key i db0)) i) = Some None) \<and>
   (alttext_gate env = Timed_out \<or>
    (\<exists>p. alttext_gate env = Signal p \<and> \<not> truthy (opt_chain p ''approved'')) \<longrightarrow>
      (\<forall>img. AiRun (MODEL AI_ALT_TEXT_CONFIG) (PROMPT AI_ALT_TEXT_CONFIG)
                (MAX_TOKENS AI_ALT_TEXT_CONFIG) img
              \<notin> set (trace (snd (run env key i db0)))) \<and>
      (\<forall>j v. UpdateImageAltText j v \<notin> set (trace (snd (run env key i db0)))) \<and>
      fst (run env key i db0) =
        fst (tag_stage env key i \<lparr>db = insertImage key i db0, trace = [InsertImage key i]\<rparr>) \<and>
      map_option row_altText (db (snd (run env key i db0)) i) = Some None)"
proof -
  let ?st0 = "\<lparr>db = insertImage key i db0, trace = [InsertImage key i]\<rparr>"
  let ?wt = "WaitForEvent ''approval-for-ai-tagging'' ''5 minute''"
  let ?wa = "WaitForEvent ''approval-for-ai-alttext'' ''5 minute''"
  let ?r = "tag_stage env key i ?st0"
  have row: "insertImage key i db0 i = Some \<lparr>row_imageKey = key, row_tags = None, row_altText = None\<rparr>"
    by (simp add: insertImage_def)
  have first:
    "(\<forall>img. AiRun (MODEL AI_TAGS_CONFIG) (PROMPT AI_TAGS_CONFIG) (MAX_TOKENS AI_TAGS_CONFIG) img
              \<notin> set (trace (snd (run env key i db0)))) \<and>
     (\<forall>j v. UpdateImageTags j v \<notin> set (trace (snd (run env key i db0)))) \<and>
     take 3 (trace (snd (run env key i db0))) = [InsertImage key i, ?wt, ?wa] \<and>
     map_option row_tags (db (snd (run env key i db0)) i) = Some None"
    if skip: "tag_gate env = Timed_out \<or>
      (\<exists>p. tag_gate env = Signal p \<and> \<not> truthy (opt_chain p ''approved''))"
  proof -
    have run: "run env key i db0 = alttext_stage env key i (emit ?wt ?st0)"
      by (simp add: run_unfold tag_stage_skip [OF skip])
    obtain es where es: "trace (snd (alttext_stage env key i (emit ?wt ?st0))) =
          trace (emit ?wt ?st0) @ ?wa # es"
        "set es \<subseteq> insert (BucketGet key)
                   ({AiRun (MODEL AI_ALT_TEXT_CONFIG) (PROMPT AI_ALT_TEXT_CONFIG)
                       (MAX_TOKENS AI_ALT_TEXT_CONFIG) img | img. True} \<union>
                    {UpdateImageAltText i v | v. True})"
      using alttext_stage_trace by blast
    have tr: "trace (snd (run env key i db0)) = [InsertImage key i, ?wt, ?wa] @ es"
      by (simp add: run es(1))
    have "AiRun (MODEL AI_TAGS_CONFIG) (PROMPT AI_TAGS_CONFIG) (MAX_TOKENS AI_TAGS_CONFIG) img
            \<notin> set es" for img
      using es(2) prompts_differ by auto
    moreover have "UpdateImageTags j v \<notin> set es" for j v
      using es(2) by auto
    moreover have "map_option row_tags (db (snd (run env key i db0)) i) = Some None"
      by (simp add: run alttext_stage_tags row)
    ultimately show ?thesis
      by (simp add: tr)
  qed
  have second:
    "(\<forall>img. AiRun (MODEL AI_ALT_TEXT_CONFIG) (PROMPT AI_ALT_TEXT_CONFIG)
                (MAX_TOKENS AI_ALT_TEXT_CONFIG) img
              \<notin> set (trace (snd (run env key i db0)))) \<and>
     (\<forall>j v. UpdateImageAltText j v \<notin> set (trace (snd (run env key i db0)))) \<and>
     fst (run env key i db0) = fst ?r \<and>
     map_option row_altText (db (snd (run env key i db0)) i) = Some None"
    if skip: "alttext_gate env = Timed_out \<or>
      (\<exists>p. alttext_gate env = Signal p \<and> \<not> truthy (opt_chain p ''approved''))"
  proof -
    obtain es where es: "trace (snd ?r) = trace ?st0 @ ?wt # es"
        "set es \<subseteq> insert (BucketGet key)
                   ({AiRun (MODEL AI_TAGS_CONFIG) (PROMPT AI_TAGS_CONFIG)
                       (MAX_TOKENS AI_TAGS_CONFIG) img | img. True} \<union>
                    {UpdateImageTags i v | v. True})"
      using tag_stage_trace by blast
    have no_ai: "AiRun (MODEL AI_ALT_TEXT_CONFIG) (PROMPT AI_ALT_TEXT_CONFIG)
                   (MAX_TOKENS AI_ALT_TEXT_CONFIG) img \<notin> set es" for img
      using es(2) prompts_differ by auto
    have no_up: "UpdateImageAltText j v \<notin> set es" for j v
      using es(2) by auto
    have dbr: "map_option row_altText (db (snd ?r) i) = Some None"
      by (simp add: tag_stage_altText row)
    show ?thesis
    proof (cases "fst ?r")
      case (Some e)
      then have run: "run env key i db0 = (Some e, snd ?r)"
        by (simp add: run_unfold Let_def)
      show ?thesis
        using no_ai no_up dbr Some by (simp add: run es(1))
    next
      case None
      then have run: "run env key i db0 = (None, emit ?wa (snd ?r))"
        by (simp add: run_unfold Let_def alttext_stage_skip [OF skip])
      show ?thesis
        using no_ai no_up dbr None by (simp add: run es(1))
    qed
  qed
  from first second show ?thesis by blast
qed

theorem unapproved_gate_skips_stage_witness:
  "run \<lparr>tag_gate = Timed_out, alttext_gate = Signal (JObj [(''approved'', JBool False)]),
        bucket_get = (\<lambda>k. Some ''bytes''),
        ai_run = (\<lambda>m p n img. Some (JObj [(''description'', JStr ''cat, pet'')]))\<rparr>
       ''k1'' ''X'' Map.empty
     = (None,
        \<lparr>db = [''X'' \<mapsto> \<lparr>row_imageKey = ''k1'', row_tags = None, row_altText = None\<rparr>],
         trace = [InsertImage ''k1'' ''X'',
                  WaitForEvent ''approval-for-ai-tagging'' ''5 minute'',
                  WaitForEvent ''approval-for-ai-alttext'' ''5 minute'']\<rparr>) \<and>
   map_option row_tags
     (db (snd (run \<lparr>tag_gate = Timed_out,
                    alttext_gate = Signal (JObj [(''approved'', JBool False)]),
                    bucket_get = (\<lambda>k. Some ''bytes''),
                    ai_run = (\<lambda>m p n img. Some (JObj [(''description'', JStr ''cat, pet'')]))\<rparr>
                   ''k1'' ''X'' Map.empty)) ''X'') = Some None \<and>
   map_option row_altText
     (db (snd (run \<lparr>tag_gate = Timed_out,
                    alttext_gate = Signal (JObj [(''approved'', JBool False)]),
                    bucket_get = (\<lambda>k. Some ''bytes''),
                    ai_run = (\<lambda>m p n img. Some (JObj [(''description'', JStr ''cat, pet'')]))\<rparr>
                   ''k1'' ''X'' Map.empty)) ''X'') = Some None"
proof -
  let ?env = "\<lparr>tag_gate = Timed_out, alttext_gate = Signal (JObj [(''approved'', JBool False)]),
        bucket_get = (\<lambda>k. Some ''bytes''),
        ai_run = (\<lambda>m p n img. Some (JObj [(''description'', JStr ''cat, pet'')]))\<rparr>"
  have h1: "tag_gate ?env = Timed_out \<or>
            (\<exists>p. tag_gate ?env = Signal p \<and> \<not> truthy (opt_chain p ''approved''))"
    by simp
  have h2: "alttext_gate ?env = Timed_out \<or>
            (\<exists>p. alttext_gate ?env = Signal p \<and> \<not> truthy (opt_chain p ''approved''))"
    by simp
  have r: "run ?env ''k1'' ''X'' Map.empty
     = (None,
        \<lparr>db = [''X'' \<mapsto> \<lparr>row_imageKey = ''k1'', row_tags = None, row_altText = None\<rparr>],
         trace = [InsertImage ''k1'' ''X'',
                  WaitForEvent ''approval-for-ai-tagging'' ''5 minute'',
                  WaitForEvent ''approval-for-ai-alttext'' ''5 minute'']\<rparr>)"
    by (simp add: run_def tag_stage_def alttext_stage_def emit_def insertImage_def Let_def)
  from unapproved_gate_skips_stage [of ?env "''k1''" "''X''" Map.empty] h1 h2
  have "map_option row_tags (db (snd (run ?env ''k1'' ''X'' Map.empty)) ''X'') = Some None"
    and "map_option row_altText (db (snd (run ?env ''k1'' ''X'' Map.empty)) ''X'') = Some None"
    by blast+
  with r show ?thesis by blast
qed

end
